theory Spec2Isabelle
  imports Complex_Main
begin

section \<open>Python helpers\<close>

text \<open>
  The exceptions of the source that the model keeps apart: \<open>IndexError\<close> (a list read
  out of range), \<open>OSError\<close> (a directory or file that cannot be created or written),
  \<open>ValueError\<close> (a sleep of negative length, a thread pool without workers) and
  \<open>AssertionError\<close> (the HTML parser on markup it cannot read).
\<close>

datatype py_error = IndexError | OSError | ValueError | AssertionError

text \<open>
  \<open>time.sleep(secs)\<close> raises \<open>ValueError\<close> for a negative length. (It does so for a
  NaN too, which has no counterpart among the reals.)
\<close>

definition py_sleep :: "real \<Rightarrow> py_error + real" where
  "py_sleep secs = (if secs < 0 then Inl ValueError else Inr secs)"

text \<open>
  Reading \<open>xs[i]\<close>: an index from 0 up to the length reads from the front, an index
  from \<open>-len(xs)\<close> up to \<open>-1\<close> reads from the back, any other raises \<open>IndexError\<close>.
\<close>

definition py_index :: "'a list \<Rightarrow> int \<Rightarrow> py_error + 'a" where
  "py_index xs i =
     (if 0 \<le> i \<and> i < int (length xs) then Inr (xs ! nat i)
      else if - int (length xs) \<le> i \<and> i < 0 then Inr (xs ! nat (int (length xs) + i))
      else Inl IndexError)"

text \<open>
  \<open>random.uniform(a, b)\<close> is \<open>a + (b - a) * random()\<close>; the draw \<open>u\<close> of \<open>random()\<close>
  is an input of the model. Python floats are modelled as reals.
\<close>

definition uniform :: "real \<Rightarrow> real \<Rightarrow> real \<Rightarrow> real" where
  "uniform a b u = a + (b - a) * u"

section \<open>RateLimiter (youtube\_downloader.py)\<close>

record rate_limiter =
  min_delay :: real
  max_delay :: real
  download_delay_min :: real
  download_delay_max :: real
  last_request_time :: real
  last_download_time :: real
  error_count :: int

definition RateLimiter :: "real \<Rightarrow> real \<Rightarrow> real \<Rightarrow> real \<Rightarrow> rate_limiter" where
  "RateLimiter mn mx dmn dmx =
     \<lparr>min_delay = mn, max_delay = mx, download_delay_min = dmn, download_delay_max = dmx,
      last_request_time = 0, last_download_time = 0, error_count = 0\<rparr>"

text \<open>The constructor's default arguments.\<close>

definition RateLimiter_default :: rate_limiter where
  "RateLimiter_default = RateLimiter 3 5 5 10"

text \<open>
  Lines 59 to 64 of \<open>wait_for_request\<close>: the jitter, and the backoff added to it when
  there were recent errors. \<open>2 ** error_count\<close> is an integer power there, since the
  branch is taken for a positive count only.
\<close>

definition backoff :: "int \<Rightarrow> int" where
  "backoff n = min (2 ^ nat n) 60"

definition request_delay :: "rate_limiter \<Rightarrow> real \<Rightarrow> real" where
  "request_delay rl u =
     (let delay = uniform (min_delay rl) (max_delay rl) u
      in if error_count rl > 0 then delay + of_int (backoff (error_count rl)) else delay)"

text \<open>
  The two readings of \<open>time.time()\<close> (before the comparison, and after the sleep) are
  inputs \<open>t1\<close> and \<open>t2\<close>. The result is the new state and the sleep made, if any.
\<close>

definition wait_for_request ::
  "rate_limiter \<Rightarrow> real \<Rightarrow> real \<Rightarrow> real \<Rightarrow> rate_limiter \<times> real option" where
  "wait_for_request rl u t1 t2 =
     (let delay = request_delay rl u;
          elapsed = t1 - last_request_time rl
      in (rl\<lparr>last_request_time := t2\<rparr>,
          if elapsed < delay then Some (delay - elapsed) else None))"

definition wait_for_download ::
  "rate_limiter \<Rightarrow> real \<Rightarrow> real \<Rightarrow> real \<Rightarrow> rate_limiter \<times> real option" where
  "wait_for_download rl u t1 t2 =
     (let delay = uniform (download_delay_min rl) (download_delay_max rl) u;
          elapsed = t1 - last_download_time rl
      in (rl\<lparr>last_download_time := t2\<rparr>,
          if elapsed < delay then Some (delay - elapsed) else None))"

definition wait_times :: "int list" where
  "wait_times = [30, 60, 120]"

text \<open>
  \<open>on_error\<close> increments the counter first; the list read of the 403 branch can raise,
  and the increment is then already made. The result is the new state and either the
  exception or the sleep made, if any.
\<close>

definition on_error ::
  "rate_limiter \<Rightarrow> int option \<Rightarrow> rate_limiter \<times> (py_error + real option)" where
  "on_error rl error_code =
     (let rl' = rl\<lparr>error_count := error_count rl + 1\<rparr>
      in if error_code = Some 403 then
           (case py_index wait_times (min (error_count rl' - 1) (int (length wait_times) - 1)) of
              Inl e \<Rightarrow> (rl', Inl e)
            | Inr wait_time \<Rightarrow> (rl', Inr (Some (of_int wait_time))))
         else (rl', Inr None))"

definition on_success :: "rate_limiter \<Rightarrow> rate_limiter" where
  "on_success rl = rl\<lparr>error_count := 0\<rparr>"

text \<open>
  A sequence of calls on one limiter. Each call carries its inputs: the random draw and
  the two clock readings for a pacing call, the status code for \<open>on_error\<close>.
  \<open>run_ops\<close> makes the calls in order, collects the sleeps, and stops at an exception.
\<close>

datatype rl_op =
    WaitForRequest real real real
  | WaitForDownload real real real
  | OnError "int option"
  | OnSuccess

fun apply_op :: "rate_limiter \<Rightarrow> rl_op \<Rightarrow> rate_limiter \<times> (py_error + real option)" where
  "apply_op rl (WaitForRequest u t1 t2) =
     (case wait_for_request rl u t1 t2 of (rl', s) \<Rightarrow> (rl', Inr s))"
| "apply_op rl (WaitForDownload u t1 t2) =
     (case wait_for_download rl u t1 t2 of (rl', s) \<Rightarrow> (rl', Inr s))"
| "apply_op rl (OnError code) = on_error rl code"
| "apply_op rl OnSuccess = (on_success rl, Inr None)"

fun run_ops ::
  "rate_limiter \<Rightarrow> rl_op list \<Rightarrow> rate_limiter \<times> (py_error + real option list)" where
  "run_ops rl [] = (rl, Inr [])"
| "run_ops rl (x # xs) =
     (case apply_op rl x of
        (rl', Inl e) \<Rightarrow> (rl', Inl e)
      | (rl', Inr s) \<Rightarrow>
          (case run_ops rl' xs of
             (rl'', Inl e) \<Rightarrow> (rl'', Inl e)
           | (rl'', Inr ss) \<Rightarrow> (rl'', Inr (s # ss))))"

section \<open>YouTubeDownloader (youtube\_downloader.py)\<close>

text \<open>Python's \<open>sub in s\<close> on strings.\<close>

fun contains :: "string \<Rightarrow> string \<Rightarrow> bool" where
  "contains sub [] = (sub = [])"
| "contains sub (c # cs) = (take (length sub) (c # cs) = sub \<or> contains sub cs)"

text \<open>The dictionary \<open>self.stats\<close>, with its four fixed keys.\<close>

record stats =
  total :: int
  success :: int
  failed :: int
  skipped :: int

record downloader =
  output_dir :: string
  rate_limiter :: rate_limiter
  max_retries :: int
  speed_limit :: string
  stats :: stats

text \<open>
  The constructor: \<open>rate_limiter or RateLimiter()\<close> takes the limiter given, or a
  default one. (Creating the output directory is left out. Paths are joined with a
  slash below, which is what \<open>pathlib\<close> does for a directory name that is not empty
  and an id that is not an absolute path.)
\<close>

definition YouTubeDownloader ::
  "string \<Rightarrow> rate_limiter option \<Rightarrow> int \<Rightarrow> string \<Rightarrow> downloader" where
  "YouTubeDownloader out rl retries limit =
     \<lparr>output_dir = out,
      rate_limiter = (case rl of Some r \<Rightarrow> r | None \<Rightarrow> RateLimiter_default),
      max_retries = retries, speed_limit = limit,
      stats = \<lparr>total = 0, success = 0, failed = 0, skipped = 0\<rparr>\<rparr>"

text \<open>
  What a call of the outside world does: it returns, or raises
  \<open>yt_dlp.utils.DownloadError\<close> with a message, or raises another exception.
\<close>

datatype exn = DownloadError string | OtherException string

datatype 'a outcome = Returns 'a | Raises exn

text \<open>
  The outside world of one call of \<open>download_video\<close>: the random draws and clock
  readings of the two pacing calls; \<open>extract_info\<close>, the metadata-only extraction,
  which gives the video id (a missing id is a raised exception); \<open>path_exists\<close>, the
  file system at the time of the check; \<open>ydl_download\<close>, the download of lines 314 to
  317; \<open>save_metadata\<close>, lines 320 to 331 (the probing of the file and the writing of
  the metadata file).
\<close>

record dl_env =
  draw_request :: real
  clock_request1 :: real
  clock_request2 :: real
  draw_download :: real
  clock_download1 :: real
  clock_download2 :: real
  extract_info :: "string \<Rightarrow> string outcome"
  path_exists :: "string \<Rightarrow> bool"
  ydl_download :: "string \<Rightarrow> unit outcome"
  save_metadata :: "string \<Rightarrow> unit outcome"

text \<open>
  The effects of a call, in the order they are made: pacing calls (with the sleep made,
  if any), the two network calls, the writing of the metadata file, and the sleep of
  \<open>on_error(403)\<close>.
\<close>

datatype event =
    EvWaitForRequest "real option"
  | EvExtractInfo string
  | EvWaitForDownload "real option"
  | EvDownload string
  | EvSaveMetadata string
  | EvPenalty real

type_synonym dl_result = "downloader \<times> event list \<times> (py_error + bool \<times> string option)"

text \<open>
  What the two \<open>except\<close> clauses share: \<open>on_error\<close>, then the failure is counted and
  \<open>(False, None)\<close> returned. An exception of \<open>on_error\<close> itself leaves the function.
\<close>

definition count_failure :: "downloader \<Rightarrow> event list \<Rightarrow> int option \<Rightarrow> dl_result" where
  "count_failure d evs code =
     (case on_error (rate_limiter d) code of
        (rl', Inl e) \<Rightarrow> (d\<lparr>rate_limiter := rl'\<rparr>, evs, Inl e)
      | (rl', Inr s) \<Rightarrow>
          (d\<lparr>rate_limiter := rl', stats := (stats d)\<lparr>failed := failed (stats d) + 1\<rparr>\<rparr>,
           evs @ (case s of None \<Rightarrow> [] | Some w \<Rightarrow> [EvPenalty w]),
           Inr (False, None)))"

fun except_clauses :: "downloader \<Rightarrow> event list \<Rightarrow> exn \<Rightarrow> dl_result" where
  "except_clauses d evs (DownloadError error_msg) =
     (if contains ''403'' error_msg \<or> contains ''Forbidden'' error_msg
      then count_failure d evs (Some 403)
      else count_failure d evs None)"
| "except_clauses d evs (OtherException e) = count_failure d evs None"

definition download_video :: "downloader \<Rightarrow> dl_env \<Rightarrow> string \<Rightarrow> dl_result" where
  "download_video d env url =
     (let d1 = d\<lparr>stats := (stats d)\<lparr>total := total (stats d) + 1\<rparr>\<rparr>;
          w1 = wait_for_request (rate_limiter d1)
                 (draw_request env) (clock_request1 env) (clock_request2 env);
          d2 = d1\<lparr>rate_limiter := fst w1\<rparr>;
          evs2 = [EvWaitForRequest (snd w1), EvExtractInfo url]
      in case extract_info env url of
           Raises x \<Rightarrow> except_clauses d2 evs2 x
         | Returns video_id \<Rightarrow>
             (let video_dir = output_dir d2 @ ''/'' @ video_id;
                  audio_file = video_dir @ ''/'' @ video_id @ ''.m4a'';
                  metadata_file = video_dir @ ''/'' @ video_id @ ''.json''
              in if path_exists env audio_file \<and> path_exists env metadata_file then
                   (d2\<lparr>stats := (stats d2)\<lparr>skipped := skipped (stats d2) + 1\<rparr>\<rparr>,
                    evs2, Inr (True, Some video_id))
                 else
                   (let w3 = wait_for_download (rate_limiter d2)
                               (draw_download env) (clock_download1 env) (clock_download2 env);
                        d3 = d2\<lparr>rate_limiter := fst w3\<rparr>;
                        evs3 = evs2 @ [EvWaitForDownload (snd w3), EvDownload url]
                    in case ydl_download env url of
                         Raises x \<Rightarrow> except_clauses d3 evs3 x
                       | Returns _ \<Rightarrow>
                           (case save_metadata env metadata_file of
                              Raises x \<Rightarrow>
                                except_clauses d3 (evs3 @ [EvSaveMetadata metadata_file]) x
                            | Returns _ \<Rightarrow>
                                (d3\<lparr>stats := (stats d3)\<lparr>success := success (stats d3) + 1\<rparr>,
                                    rate_limiter := on_success (rate_limiter d3)\<rparr>,
                                 evs3 @ [EvSaveMetadata metadata_file],
                                 Inr (True, Some video_id))))))"

text \<open>
  Calls of \<open>download_video\<close> one after the other on the same downloader, each with its
  own outside world; an exception that leaves a call ends the sequence.
\<close>

fun download_videos :: "downloader \<Rightarrow> (dl_env \<times> string) list \<Rightarrow> downloader \<times> bool" where
  "download_videos d [] = (d, True)"
| "download_videos d ((env, url) # cs) =
     (case download_video d env url of
        (d', evs, Inl e) \<Rightarrow> (d', False)
      | (d', evs, Inr r) \<Rightarrow> download_videos d' cs)"

text \<open>
  What \<open>print\<close> writes, line by line: the text of a label is the constructor, the value
  printed with it is the argument. \<open>SuccessRate s t\<close> is the line that shows
  \<open>(s / t) * 100\<close> with one decimal.
\<close>

datatype summary_line =
    Rule
  | Title
  | Total int
  | Successful int
  | is_Skipped: Skipped int
  | Failed int
  | is_SuccessRate: SuccessRate int int

definition print_summary :: "downloader \<Rightarrow> summary_line list" where
  "print_summary d =
     [Rule, Title, Rule,
      Total (total (stats d)), Successful (success (stats d)),
      Skipped (skipped (stats d)), Failed (failed (stats d)), Rule]
     @ (if total (stats d) > 0 then [SuccessRate (success (stats d)) (total (stats d))] else [])
     @ [Rule]"

section \<open>TurboScribeBatch (turboscribe\_batch.py)\<close>

text \<open>
  \<open>str.split(sep)\<close> for a separator that is not empty: \<open>k\<close> counts the characters
  of a separator just found that are still to be passed over, \<open>acc\<close> is the piece read
  so far, backwards.
\<close>

fun split_from :: "string \<Rightarrow> nat \<Rightarrow> string \<Rightarrow> string \<Rightarrow> string list" where
  "split_from sep k acc [] = [rev acc]"
| "split_from sep (Suc k) acc (c # cs) = split_from sep k acc cs"
| "split_from sep 0 acc (c # cs) =
     (if take (length sep) (c # cs) = sep
      then rev acc # split_from sep (length sep - 1) [] cs
      else split_from sep 0 (c # acc) cs)"

definition py_split :: "string \<Rightarrow> string \<Rightarrow> string list" where
  "py_split sep s = split_from sep 0 [] s"

text \<open>\<open>str\<close> of an integer, for the f-string of the HTTP error.\<close>

fun digits :: "nat \<Rightarrow> string" where
  "digits n =
     (if n < 10 then [''0123456789'' ! n]
      else digits (n div 10) @ [''0123456789'' ! (n mod 10)])"

declare digits.simps [simp del]

definition str_int :: "int \<Rightarrow> string" where
  "str_int i = (if i < 0 then CHR ''-'' # digits (nat (- i)) else digits (nat i))"

text \<open>
  The response of \<open>session.post\<close>: its status code, the \<open>Content-Encoding\<close> header
  in lower case (empty when absent), \<open>response.text\<close>, and the content after zstd
  decompression and UTF-8 decoding, \<open>None\<close> when either of them raises.
\<close>

record http_response =
  r_status_code :: int
  r_content_encoding :: string
  r_text :: string
  r_zstd :: "string option"

datatype post_result = Response http_response | RequestException string

text \<open>
  The outside world of a batch: \<open>post\<close>, the answer of the endpoint to a URL;
  \<open>extract_audio_link\<close>, the HTML parser, which gives the first audio link of a
  markup, if any, or raises on markup it cannot read; \<open>strftime\<close>, the time stamp; \<open>html_write_ok\<close>, whether the directory
  and the file of an HTML response can be created and written; \<open>fetch_ok\<close>, whether
  all of directory creation, GET, status check and chunked writing of an audio file
  succeed.
\<close>

record ts_env =
  post :: "string \<Rightarrow> post_result"
  extract_audio_link :: "string \<Rightarrow> py_error + string option"
  strftime :: string
  html_write_ok :: "string \<Rightarrow> bool"
  fetch_ok :: "string \<Rightarrow> string \<Rightarrow> bool"

text \<open>
  The result dictionary. A key that is absent and a key whose value is \<open>None\<close> are
  both \<open>None\<close> here: the code reads these keys with \<open>get\<close> and by truth value only.
\<close>

record result =
  url :: string
  status :: string
  error :: "string option"
  response :: "string option"
  status_code :: "int option"
  html_file :: "string option"
  audio_file :: "string option"
  audio_link :: "string option"

definition decode_response_content :: "http_response \<Rightarrow> string" where
  "decode_response_content resp =
     (if r_content_encoding resp = ''zstd'' then
        (case r_zstd resp of Some decompressed \<Rightarrow> decompressed | None \<Rightarrow> r_text resp)
      else r_text resp)"

text \<open>
  The second and third pattern of each \<open>case\<close> are the \<open>IndexError\<close> that the bare
  \<open>except\<close> of the source turns into the time stamp.
\<close>

definition extract_video_id :: "ts_env \<Rightarrow> string \<Rightarrow> string" where
  "extract_video_id env youtube_url =
     (if contains ''v='' youtube_url then
        (case py_split ''v='' youtube_url of
           a # b # rest \<Rightarrow> (case py_split ''&'' b of c # rest' \<Rightarrow> c | [] \<Rightarrow> strftime env)
         | _ \<Rightarrow> strftime env)
      else if contains ''youtu.be/'' youtube_url then
        (case py_split ''youtu.be/'' youtube_url of
           a # b # rest \<Rightarrow> (case py_split ''?'' b of c # rest' \<Rightarrow> c | [] \<Rightarrow> strftime env)
         | _ \<Rightarrow> strftime env)
      else strftime env)"

text \<open>\<open>_save_html_response\<close> has no handler: a failed write raises.\<close>

definition save_html_response :: "ts_env \<Rightarrow> string \<Rightarrow> string \<Rightarrow> py_error + string" where
  "save_html_response env youtube_url html_content =
     (let video_id = extract_video_id env youtube_url;
          filename = video_id @ ''_'' @ strftime env @ ''.html'';
          filepath = ''html_responses/'' @ filename
      in if html_write_ok env filepath then Inr filepath else Inl OSError)"

text \<open>\<open>_download_audio\<close> catches every exception and returns \<open>None\<close> then.\<close>

definition download_audio :: "ts_env \<Rightarrow> string \<Rightarrow> string \<Rightarrow> string option" where
  "download_audio env audio_url video_id =
     (let ext = (if contains ''mime=audio%2Fwebm'' audio_url \<or> contains ''mime=audio/webm'' audio_url
                 then ''weba''
                 else if contains ''mime=audio%2Fmp4'' audio_url \<or> contains ''mime=audio/mp4'' audio_url
                 then ''m4a''
                 else ''audio'');
          filename = video_id @ ''_'' @ strftime env @ ''.'' @ ext;
          filepath = ''audio_downloads/'' @ filename
      in if fetch_ok env audio_url filepath then Some filepath else None)"

text \<open>
  \<open>process_single_url\<close>: only \<open>requests.exceptions.RequestException\<close> is caught, so
  an exception of \<open>save_html_response\<close> or of the HTML parser leaves the function.
\<close>

definition process_single_url :: "ts_env \<Rightarrow> string \<Rightarrow> bool \<Rightarrow> bool \<Rightarrow> py_error + result" where
  "process_single_url env youtube_url save_html download =
     (case post env youtube_url of
        RequestException e \<Rightarrow>
          Inr \<lparr>url = youtube_url, status = ''error'', error = Some e, response = None,
               status_code = None, html_file = None, audio_file = None, audio_link = None\<rparr>
      | Response resp \<Rightarrow>
          if r_status_code resp = 200 then
            (let decoded_content = decode_response_content resp
             in case (if save_html \<and> decoded_content \<noteq> []
                      then map_sum id Some (save_html_response env youtube_url decoded_content)
                      else Inr None) of
                  Inl e \<Rightarrow> Inl e
                | Inr html \<Rightarrow>
                    (case (if download \<and> decoded_content \<noteq> [] then
                             (case extract_audio_link env decoded_content of
                                Inl e \<Rightarrow> Inl e
                              | Inr None \<Rightarrow> Inr None
                              | Inr (Some link) \<Rightarrow>
                                  Inr (if link \<noteq> []
                                       then download_audio env link
                                              (extract_video_id env youtube_url)
                                       else None))
                           else Inr None) of
                       Inl e \<Rightarrow> Inl e
                     | Inr audio \<Rightarrow>
                         Inr \<lparr>url = youtube_url, status = ''success'', error = None,
                              response = Some decoded_content,
                              status_code = Some (r_status_code resp),
                              html_file = html, audio_file = audio, audio_link = None\<rparr>))
          else
            Inr \<lparr>url = youtube_url, status = ''failed'',
                 error = Some (''HTTP '' @ str_int (r_status_code resp)),
                 response = Some (r_text resp), status_code = None, html_file = None,
                 audio_file = None, audio_link = None\<rparr>)"

text \<open>
  The loop of \<open>process_batch\<close>: \<open>idx\<close> counts from 1, \<open>results\<close> is appended to, and
  there is a sleep of \<open>delay\<close> seconds after every item but the last. The sleeps made
  are returned with the results, or with the exception that ended the loop: one that
  left \<open>process_single_url\<close>, or the one of a sleep of negative length.
\<close>

fun batch_loop ::
  "ts_env \<Rightarrow> real \<Rightarrow> bool \<Rightarrow> bool \<Rightarrow> nat \<Rightarrow> nat \<Rightarrow> string list \<Rightarrow> result list \<Rightarrow> real list
     \<Rightarrow> real list \<times> (py_error + result list)" where
  "batch_loop env delay save_html download n idx [] results sleeps = (sleeps, Inr results)"
| "batch_loop env delay save_html download n idx (u # us) results sleeps =
     (case process_single_url env u save_html download of
        Inl e \<Rightarrow> (sleeps, Inl e)
      | Inr r \<Rightarrow>
          if idx < n then
            (case py_sleep delay of
               Inl e \<Rightarrow> (sleeps, Inl e)
             | Inr s \<Rightarrow>
                 batch_loop env delay save_html download n (idx + 1) us (results @ [r])
                   (sleeps @ [s]))
          else batch_loop env delay save_html download n (idx + 1) us (results @ [r]) sleeps)"

definition process_batch ::
  "ts_env \<Rightarrow> real \<Rightarrow> string list \<Rightarrow> bool \<Rightarrow> bool \<Rightarrow> real list \<times> (py_error + result list)" where
  "process_batch env delay youtube_urls save_html download =
     batch_loop env delay save_html download (length youtube_urls) 1 youtube_urls [] []"

text \<open>
  \<open>print_summary\<close> of the batch: the lines printed, as for the downloader above.
\<close>

definition batch_print_summary :: "result list \<Rightarrow> summary_line list" where
  "batch_print_summary results =
     (let n = int (length results);
          ok = sum_list (map (\<lambda>r. 1) (filter (\<lambda>r. status r = ''success'') results))
      in [Rule, Title, Rule, Total n, Successful ok, Failed (n - ok), Rule])"

section \<open>ParallelAudioDownloader (batch\_from\_file\_parallel.py)\<close>

definition truthy :: "string option \<Rightarrow> bool" where
  "truthy x = (case x of None \<Rightarrow> False | Some s \<Rightarrow> s \<noteq> [])"

definition download_audio_task :: "ts_env \<Rightarrow> result \<Rightarrow> result" where
  "download_audio_task env r =
     (if status r = ''success'' \<and> truthy (audio_link r) then
        (case audio_link r of
           Some link \<Rightarrow> r\<lparr>audio_file := download_audio env link (extract_video_id env (url r))\<rparr>
         | None \<Rightarrow> r)
      else r)"

text \<open>
  Step 1: the links, one URL after the other. The HTML parser is called outside any
  handler here, and the sleep is the one of \<open>process_batch\<close>.
\<close>

fun link_loop ::
  "ts_env \<Rightarrow> real \<Rightarrow> nat \<Rightarrow> nat \<Rightarrow> string list \<Rightarrow> result list \<Rightarrow> real list
     \<Rightarrow> real list \<times> (py_error + result list)" where
  "link_loop env delay n idx [] results sleeps = (sleeps, Inr results)"
| "link_loop env delay n idx (u # us) results sleeps =
     (case process_single_url env u True False of
        Inl e \<Rightarrow> (sleeps, Inl e)
      | Inr r \<Rightarrow>
          (case (if status r = ''success'' \<and> truthy (response r)
                 then (case response r of
                         Some html \<Rightarrow>
                           (case extract_audio_link env html of
                              Inl e \<Rightarrow> Inl e
                            | Inr link \<Rightarrow> Inr (r\<lparr>audio_link := link\<rparr>))
                       | None \<Rightarrow> Inr r)
                 else Inr r) of
             Inl e \<Rightarrow> (sleeps, Inl e)
           | Inr r' \<Rightarrow>
               if idx < n then
                 (case py_sleep delay of
                    Inl e \<Rightarrow> (sleeps, Inl e)
                  | Inr s \<Rightarrow> link_loop env delay n (idx + 1) us (results @ [r']) (sleeps @ [s]))
               else link_loop env delay n (idx + 1) us (results @ [r']) sleeps))"

text \<open>
  Step 2: every result with a link is a task of the thread pool, and a task writes the
  \<open>audio_file\<close> of its own dictionary, which is the one in \<open>results\<close>. The tasks share
  nothing else, and the outside world answers a download by its link and path alone, so
  the list returned is the same in whatever order the tasks run: each result that was
  submitted, updated by its task, at its place. The pool is made only when there is a
  task, and \<open>ThreadPoolExecutor\<close> raises \<open>ValueError\<close> for a bound \<open>max_workers\<close> that
  is not positive.
\<close>

definition process_with_parallel_download ::
  "ts_env \<Rightarrow> real \<Rightarrow> int \<Rightarrow> string list \<Rightarrow> real list \<times> (py_error + result list)" where
  "process_with_parallel_download env delay max_workers urls =
     (case link_loop env delay (length urls) 1 urls [] [] of
        (sleeps, Inl e) \<Rightarrow> (sleeps, Inl e)
      | (sleeps, Inr results) \<Rightarrow>
          (let download_tasks =
                 filter (\<lambda>r. status r = ''success'' \<and> truthy (audio_link r)) results
           in if download_tasks \<noteq> [] \<and> max_workers \<le> 0 then (sleeps, Inl ValueError)
              else (sleeps,
                    Inr (map (\<lambda>r. if status r = ''success'' \<and> truthy (audio_link r)
                                   then download_audio_task env r else r) results))))"

section \<open>Concrete runs\<close>

text \<open>
  A video URL, and three outside worlds for \<open>download_video\<close> on the default
  downloader: one where \<open>abc123\<close> is already on disk, one where nothing is on disk and
  everything succeeds, one where the extraction is refused with HTTP 403.
\<close>

definition video_url :: string where
  "video_url = ''https://www.youtube.com/watch?v=abc123''"

definition downloader0 :: downloader where
  "downloader0 = YouTubeDownloader ''downloads'' None 3 ''500K''"

definition env_fresh :: dl_env where
  "env_fresh =
     \<lparr>draw_request = 1 / 2, clock_request1 = 1000, clock_request2 = 1000,
      draw_download = 1 / 2, clock_download1 = 1001, clock_download2 = 1001,
      extract_info = (\<lambda>u. Returns ''abc123''),
      path_exists = (\<lambda>p. False),
      ydl_download = (\<lambda>u. Returns ()),
      save_metadata = (\<lambda>p. Returns ())\<rparr>"

definition env_already_downloaded :: dl_env where
  "env_already_downloaded =
     env_fresh\<lparr>clock_request1 := 0, clock_request2 := 4,
       path_exists := (\<lambda>p. p = ''downloads/abc123/abc123.m4a''
                            \<or> p = ''downloads/abc123/abc123.json'')\<rparr>"

definition env_forbidden :: dl_env where
  "env_forbidden =
     env_fresh\<lparr>extract_info := (\<lambda>u. Raises (DownloadError ''HTTP Error 403: Forbidden''))\<rparr>"

text \<open>
  Three URLs and an endpoint that answers the first with a page without audio link, does
  not answer the second (the request times out) and answers the third with HTTP 404.
  In \<open>ts_env_mixed\<close> every file can be written; in \<open>ts_env_unwritable\<close> no HTML
  response can be saved.
\<close>

definition url_a :: string where
  "url_a = ''https://www.youtube.com/watch?v=aaa''"

definition url_b :: string where
  "url_b = ''https://www.youtube.com/watch?v=bbb''"

definition url_c :: string where
  "url_c = ''https://youtu.be/ccc''"

definition ts_env_mixed :: ts_env where
  "ts_env_mixed =
     \<lparr>post = (\<lambda>u. if u = url_a then
                      Response \<lparr>r_status_code = 200, r_content_encoding = [],
                                r_text = ''<p>queued</p>'', r_zstd = None\<rparr>
                    else if u = url_b then RequestException ''Read timed out''
                    else Response \<lparr>r_status_code = 404, r_content_encoding = [],
                                   r_text = ''Not Found'', r_zstd = None\<rparr>),
      extract_audio_link = (\<lambda>markup. Inr None),
      strftime = ''20250101_120000'',
      html_write_ok = (\<lambda>p. True),
      fetch_ok = (\<lambda>link p. True)\<rparr>"

definition ts_env_unwritable :: ts_env where
  "ts_env_unwritable = ts_env_mixed\<lparr>html_write_ok := (\<lambda>p. False)\<rparr>"

definition result_a :: result where
  "result_a =
     \<lparr>url = url_a, status = ''success'', error = None, response = Some ''<p>queued</p>'',
      status_code = Some 200, html_file = Some ''html_responses/aaa_20250101_120000.html'',
      audio_file = None, audio_link = None\<rparr>"

definition result_b :: result where
  "result_b =
     \<lparr>url = url_b, status = ''error'', error = Some ''Read timed out'', response = None,
      status_code = None, html_file = None, audio_file = None, audio_link = None\<rparr>"

definition result_c :: result where
  "result_c =
     \<lparr>url = url_c, status = ''failed'', error = Some ''HTTP 404'', response = Some ''Not Found'',
      status_code = None, html_file = None, audio_file = None, audio_link = None\<rparr>"

section \<open>Properties of the RateLimiter\<close>

lemma backoff_cap: "6 \<le> n \<Longrightarrow> backoff n = 60"
proof -
  assume n: "6 \<le> n"
  then have "(6::nat) \<le> nat n" by simp
  then have "(2::int) ^ 6 \<le> 2 ^ nat n"
    by (rule power_increasing) simp
  then show ?thesis by (simp add: backoff_def)
qed

text \<open>
  C3. With a positive error count \<open>n\<close>, the delay that \<open>wait_for_request\<close> computes is
  the jitter \<open>uniform(min_delay, max_delay)\<close> plus the backoff \<open>min(2^n, 60)\<close>, and the
  call sleeps for what is left of that delay; from \<open>n = 6\<close> on the backoff is 60.
\<close>

theorem wait_for_request_backoff:
  "0 < error_count rl \<Longrightarrow>
     request_delay rl u =
       uniform (min_delay rl) (max_delay rl) u + of_int (min (2 ^ nat (error_count rl)) 60)
     \<and> snd (wait_for_request rl u t1 t2) =
         (if t1 - last_request_time rl < request_delay rl u
          then Some (request_delay rl u - (t1 - last_request_time rl)) else None)
     \<and> (6 \<le> error_count rl \<longrightarrow>
          request_delay rl u = uniform (min_delay rl) (max_delay rl) u + 60)"
  using backoff_cap [of "error_count rl"]
  by (simp add: request_delay_def wait_for_request_def backoff_def Let_def)

theorem wait_for_request_backoff_witness:
  "0 < error_count (RateLimiter_default\<lparr>error_count := 10\<rparr>)
   \<and> 6 \<le> error_count (RateLimiter_default\<lparr>error_count := 10\<rparr>)
   \<and> request_delay (RateLimiter_default\<lparr>error_count := 10\<rparr>) (1 / 2) = 64
   \<and> snd (wait_for_request (RateLimiter_default\<lparr>error_count := 10\<rparr>) (1 / 2) 0 64)
       = Some 64"
  using wait_for_request_backoff [of "RateLimiter_default\<lparr>error_count := 10\<rparr>" "1 / 2" 0 64]
  by (simp add: RateLimiter_default_def RateLimiter_def uniform_def)

lemma on_error_403:
  "0 \<le> error_count rl \<Longrightarrow>
     on_error rl (Some 403) =
       (rl\<lparr>error_count := error_count rl + 1\<rparr>,
        Inr (Some (of_int (wait_times ! nat (min (error_count rl) 2)))))"
  by (simp add: on_error_def py_index_def wait_times_def Let_def min_def)

lemma on_error_count: "error_count (fst (on_error rl code)) = error_count rl + 1"
  by (simp add: on_error_def Let_def split: sum.splits)

lemma on_error_no_raise:
  "0 \<le> error_count rl \<Longrightarrow> \<exists>s. snd (on_error rl code) = Inr s"
  by (simp add: on_error_def py_index_def wait_times_def Let_def min_def)

lemma apply_op_count:
  "error_count (fst (apply_op rl x)) =
     (case x of OnError c \<Rightarrow> error_count rl + 1 | OnSuccess \<Rightarrow> 0 | _ \<Rightarrow> error_count rl)"
  by (cases x)
     (simp_all add: on_error_count on_success_def wait_for_request_def wait_for_download_def
        Let_def)

lemma apply_op_nonneg: "0 \<le> error_count rl \<Longrightarrow> 0 \<le> error_count (fst (apply_op rl x))"
  by (simp add: apply_op_count split: rl_op.splits)

lemma apply_op_no_raise:
  "0 \<le> error_count rl \<Longrightarrow> \<exists>s. snd (apply_op rl x) = Inr s"
  by (cases x)
     (simp_all add: on_error_no_raise wait_for_request_def wait_for_download_def Let_def)

lemma run_ops_nonneg:
  "0 \<le> error_count rl \<Longrightarrow>
     0 \<le> error_count (fst (run_ops rl xs)) \<and> (\<exists>ss. snd (run_ops rl xs) = Inr ss)"
proof (induction xs arbitrary: rl)
  case Nil
  then show ?case by simp
next
  case (Cons x xs)
  obtain rl' r where step: "apply_op rl x = (rl', r)"
    by (cases "apply_op rl x")
  from Cons.prems apply_op_no_raise [of rl x] step obtain s where r: "r = Inr s"
    by auto
  from Cons.prems apply_op_nonneg [of rl x] step have "0 \<le> error_count rl'"
    by simp
  from Cons.IH [OF this] obtain ss where
    rest: "0 \<le> error_count (fst (run_ops rl' xs))" "snd (run_ops rl' xs) = Inr ss"
    by auto
  then show ?case
    using step r by (cases "run_ops rl' xs") simp
qed

lemma run_ops_403:
  "0 \<le> error_count rl \<Longrightarrow>
     run_ops rl (replicate k (OnError (Some 403))) =
       (rl\<lparr>error_count := error_count rl + int k\<rparr>,
        Inr (map (\<lambda>i. Some (of_int (wait_times ! min (nat (error_count rl) + i) 2))) [0..<k]))"
proof (induction k arbitrary: rl)
  case 0
  then show ?case by simp
next
  case (Suc k)
  let ?rl = "rl\<lparr>error_count := error_count rl + 1\<rparr>"
  have nn: "0 \<le> error_count ?rl" using Suc.prems by simp
  have idx: "nat (min (error_count rl) 2) = min (nat (error_count rl)) 2"
    using Suc.prems by (auto simp: min_def)
  have shift: "nat (error_count rl + 1) = Suc (nat (error_count rl))"
    using Suc.prems by simp
  have upt: "[0..<Suc k] = 0 # map Suc [0..<k]"
    by (simp add: upt_conv_Cons map_Suc_upt del: upt_Suc)
  show ?case
    using Suc.IH [OF nn] on_error_403 [OF Suc.prems]
    by (simp add: idx shift upt comp_def add.assoc del: upt_Suc replicate_Suc
          add: replicate_Suc [of k])
qed

text \<open>
  C4. On a limiter without recorded errors, \<open>k\<close> calls of \<open>on_error(403)\<close> in a row leave
  the counter at \<open>k\<close>, raise nothing, and the call number \<open>i + 1\<close> sleeps for the entry
  \<open>min i 2\<close> of the ladder 30, 60, 120: 30 s, 60 s, 120 s, and 120 s from then on.
\<close>

theorem on_error_403_ladder:
  "error_count rl = 0 \<Longrightarrow>
     run_ops rl (replicate k (OnError (Some 403))) =
       (rl\<lparr>error_count := int k\<rparr>,
        Inr (map (\<lambda>i. Some (if i = 0 then 30 else if i = 1 then 60 else 120)) [0..<k]))"
proof -
  assume z: "error_count rl = 0"
  have ladder: "\<And>i. real_of_int (wait_times ! min i 2) =
                  (if i = 0 then 30 else if i = 1 then 60 else 120)"
  proof -
    fix i :: nat
    consider "i = 0" | "i = 1" | "2 \<le> i" by linarith
    then show "real_of_int (wait_times ! min i 2) =
                 (if i = 0 then 30 else if i = 1 then 60 else 120)"
      by cases (simp_all add: wait_times_def min_def)
  qed
  from z have "0 \<le> error_count rl" by simp
  from run_ops_403 [OF this, of k] show ?thesis
    by (simp add: z ladder)
qed

theorem on_error_403_ladder_witness:
  "error_count RateLimiter_default = 0
   \<and> run_ops RateLimiter_default
       [OnError (Some 403), OnError (Some 403), OnError (Some 403), OnError (Some 403)] =
       (RateLimiter_default\<lparr>error_count := 4\<rparr>, Inr [Some 30, Some 60, Some 120, Some 120])"
proof -
  have z: "error_count RateLimiter_default = 0"
    by (simp add: RateLimiter_default_def RateLimiter_def)
  have r: "replicate 4 (OnError (Some 403)) =
             [OnError (Some 403), OnError (Some 403), OnError (Some 403), OnError (Some 403)]"
    by (simp add: numeral_eq_Suc)
  have u: "[0..<4] = [0, 1, 2, 3]"
    by (simp add: upt_conv_Cons)
  show ?thesis
    using on_error_403_ladder [OF z, of 4] z by (simp add: r u)
qed

text \<open>
  C5. Whatever calls were made on a fresh limiter, none raised and the error count is
  not negative; the next call adds one to it if it is \<open>on_error\<close>, sets it to 0 if it is
  \<open>on_success\<close>, and leaves it as it is if it is one of the two pacing calls.
\<close>

theorem error_count_discipline:
  "0 \<le> error_count (fst (run_ops (RateLimiter mn mx dmn dmx) xs))
   \<and> (\<exists>ss. snd (run_ops (RateLimiter mn mx dmn dmx) xs) = Inr ss)
   \<and> error_count (fst (apply_op (fst (run_ops (RateLimiter mn mx dmn dmx) xs)) x)) =
       (case x of
          OnError c \<Rightarrow> error_count (fst (run_ops (RateLimiter mn mx dmn dmx) xs)) + 1
        | OnSuccess \<Rightarrow> 0
        | WaitForRequest u t1 t2 \<Rightarrow> error_count (fst (run_ops (RateLimiter mn mx dmn dmx) xs))
        | WaitForDownload u t1 t2 \<Rightarrow> error_count (fst (run_ops (RateLimiter mn mx dmn dmx) xs)))"
proof -
  have "0 \<le> error_count (RateLimiter mn mx dmn dmx)"
    by (simp add: RateLimiter_def)
  from run_ops_nonneg [OF this, of xs] show ?thesis
    by (simp add: apply_op_count split: rl_op.splits)
qed

theorem error_count_discipline_witness:
  "error_count (fst (run_ops (RateLimiter 3 5 5 10)
      [OnError None, WaitForRequest (1 / 2) 0 6, OnError (Some 403), WaitForDownload 0 6 11])) = 2
   \<and> error_count (fst (apply_op (fst (run_ops (RateLimiter 3 5 5 10)
      [OnError None, WaitForRequest (1 / 2) 0 6, OnError (Some 403), WaitForDownload 0 6 11]))
      OnSuccess)) = 0"
  using error_count_discipline [of 3 5 5 10
      "[OnError None, WaitForRequest (1 / 2) 0 6, OnError (Some 403), WaitForDownload 0 6 11]"
      OnSuccess]
  by (simp add: RateLimiter_def wait_for_request_def wait_for_download_def on_error_def
        py_index_def wait_times_def Let_def)

section \<open>Properties of the YouTubeDownloader\<close>

lemma wait_for_request_count:
  "error_count (fst (wait_for_request rl u t1 t2)) = error_count rl"
  by (simp add: wait_for_request_def Let_def)

lemma wait_for_download_count:
  "error_count (fst (wait_for_download rl u t1 t2)) = error_count rl"
  by (simp add: wait_for_download_def Let_def)

lemma count_failure_stats:
  assumes "0 \<le> error_count (rate_limiter d)"
  shows "snd (snd (count_failure d evs code)) = Inr (False, None)
           \<and> stats (fst (count_failure d evs code)) = (stats d)\<lparr>failed := failed (stats d) + 1\<rparr>
           \<and> 0 \<le> error_count (rate_limiter (fst (count_failure d evs code)))"
proof -
  obtain rl' r where oe: "on_error (rate_limiter d) code = (rl', r)"
    by (cases "on_error (rate_limiter d) code")
  from on_error_no_raise [OF assms, of code] oe obtain s where r: "r = Inr s"
    by auto
  from on_error_count [of "rate_limiter d" code] oe assms have "0 \<le> error_count rl'"
    by simp
  then show ?thesis
    by (simp add: count_failure_def oe r)
qed

lemma except_clauses_stats:
  assumes "0 \<le> error_count (rate_limiter d)"
  shows "snd (snd (except_clauses d evs x)) = Inr (False, None)
           \<and> stats (fst (except_clauses d evs x)) = (stats d)\<lparr>failed := failed (stats d) + 1\<rparr>
           \<and> 0 \<le> error_count (rate_limiter (fst (except_clauses d evs x)))"
  using count_failure_stats [OF assms] by (cases x) simp_all

lemma download_video_step:
  assumes "0 \<le> error_count (rate_limiter d)"
  shows "(\<exists>r. snd (snd (download_video d env vurl)) = Inr r)
           \<and> total (stats (fst (download_video d env vurl))) = total (stats d) + 1
           \<and> (success (stats (fst (download_video d env vurl))) = success (stats d) + 1
                \<and> failed (stats (fst (download_video d env vurl))) = failed (stats d)
                \<and> skipped (stats (fst (download_video d env vurl))) = skipped (stats d)
              \<or> success (stats (fst (download_video d env vurl))) = success (stats d)
                \<and> failed (stats (fst (download_video d env vurl))) = failed (stats d) + 1
                \<and> skipped (stats (fst (download_video d env vurl))) = skipped (stats d)
              \<or> success (stats (fst (download_video d env vurl))) = success (stats d)
                \<and> failed (stats (fst (download_video d env vurl))) = failed (stats d)
                \<and> skipped (stats (fst (download_video d env vurl))) = skipped (stats d) + 1)
           \<and> 0 \<le> error_count (rate_limiter (fst (download_video d env vurl)))"
  unfolding download_video_def Let_def
  by (auto simp: except_clauses_stats assms wait_for_request_count wait_for_download_count
        on_success_def split: outcome.splits)

lemma download_videos_inv:
  "0 \<le> error_count (rate_limiter d) \<Longrightarrow>
   total (stats d) = success (stats d) + failed (stats d) + skipped (stats d) \<Longrightarrow>
     0 \<le> error_count (rate_limiter (fst (download_videos d cs)))
     \<and> total (stats (fst (download_videos d cs))) =
         success (stats (fst (download_videos d cs))) + failed (stats (fst (download_videos d cs)))
         + skipped (stats (fst (download_videos d cs)))
     \<and> snd (download_videos d cs)"
proof (induction cs arbitrary: d)
  case Nil
  then show ?case by simp
next
  case (Cons c cs)
  obtain env vurl where c: "c = (env, vurl)" by (cases c)
  obtain d' evs r0 where dv: "download_video d env vurl = (d', evs, r0)"
    by (cases "download_video d env vurl")
  from download_video_step [OF Cons.prems(1), of env vurl] dv obtain r where
    step: "r0 = Inr r" "total (stats d') = total (stats d) + 1"
      "success (stats d') + failed (stats d') + skipped (stats d') =
         success (stats d) + failed (stats d) + skipped (stats d) + 1"
      "0 \<le> error_count (rate_limiter d')"
    by auto
  from step(2,3) Cons.prems(2)
  have "total (stats d') = success (stats d') + failed (stats d') + skipped (stats d')"
    by simp
  from Cons.IH [OF step(4) this] show ?case
    by (simp add: c dv step(1))
qed

text \<open>
  C10. A new downloader has all four counters at 0. After any calls of
  \<open>download_video\<close> on it, \<open>total = success + failed + skipped\<close>; the next call raises
  nothing, adds one to \<open>total\<close> and one to exactly one of \<open>success\<close>, \<open>failed\<close> and
  \<open>skipped\<close>, and the equation holds again. (The limiter given to the constructor, if
  any, has an error count that is not negative.)
\<close>

theorem stats_total_invariant:
  "(case rl of None \<Rightarrow> True | Some r \<Rightarrow> 0 \<le> error_count r) \<Longrightarrow>
   d = fst (download_videos (YouTubeDownloader out rl retries limit) calls) \<Longrightarrow>
   d' = fst (download_video d env vurl) \<Longrightarrow>
     stats (YouTubeDownloader out rl retries limit) =
       \<lparr>total = 0, success = 0, failed = 0, skipped = 0\<rparr>
     \<and> total (stats d) = success (stats d) + failed (stats d) + skipped (stats d)
     \<and> (\<exists>r. snd (snd (download_video d env vurl)) = Inr r)
     \<and> total (stats d') = total (stats d) + 1
     \<and> (success (stats d') = success (stats d) + 1 \<and> failed (stats d') = failed (stats d)
          \<and> skipped (stats d') = skipped (stats d)
        \<or> success (stats d') = success (stats d) \<and> failed (stats d') = failed (stats d) + 1
          \<and> skipped (stats d') = skipped (stats d)
        \<or> success (stats d') = success (stats d) \<and> failed (stats d') = failed (stats d)
          \<and> skipped (stats d') = skipped (stats d) + 1)
     \<and> total (stats d') = success (stats d') + failed (stats d') + skipped (stats d')"
proof -
  assume rl: "case rl of None \<Rightarrow> True | Some r \<Rightarrow> 0 \<le> error_count r"
    and d: "d = fst (download_videos (YouTubeDownloader out rl retries limit) calls)"
    and d': "d' = fst (download_video d env vurl)"
  let ?d0 = "YouTubeDownloader out rl retries limit"
  have init: "stats ?d0 = \<lparr>total = 0, success = 0, failed = 0, skipped = 0\<rparr>"
    by (simp add: YouTubeDownloader_def)
  have nn0: "0 \<le> error_count (rate_limiter ?d0)"
    using rl
    by (simp add: YouTubeDownloader_def RateLimiter_default_def RateLimiter_def
          split: option.splits)
  have eq0: "total (stats ?d0) = success (stats ?d0) + failed (stats ?d0) + skipped (stats ?d0)"
    by (simp add: init)
  from download_videos_inv [OF nn0 eq0, of calls] d
  have nn: "0 \<le> error_count (rate_limiter d)"
    and eq: "total (stats d) = success (stats d) + failed (stats d) + skipped (stats d)"
    by simp_all
  from download_video_step [OF nn, of env vurl] d'
  have step: "\<exists>r. snd (snd (download_video d env vurl)) = Inr r"
    "total (stats d') = total (stats d) + 1"
    "success (stats d') = success (stats d) + 1 \<and> failed (stats d') = failed (stats d)
          \<and> skipped (stats d') = skipped (stats d)
        \<or> success (stats d') = success (stats d) \<and> failed (stats d') = failed (stats d) + 1
          \<and> skipped (stats d') = skipped (stats d)
        \<or> success (stats d') = success (stats d) \<and> failed (stats d') = failed (stats d)
          \<and> skipped (stats d') = skipped (stats d) + 1"
    by simp_all
  from step(2,3) eq
  have "total (stats d') = success (stats d') + failed (stats d') + skipped (stats d')"
    by auto
  with init eq step show ?thesis
    by blast
qed

lemmas fixture_defs = video_url_def downloader0_def env_fresh_def env_already_downloaded_def
  env_forbidden_def YouTubeDownloader_def RateLimiter_default_def RateLimiter_def

lemmas dl_defs = download_video_def wait_for_request_def wait_for_download_def request_delay_def
  uniform_def on_error_def on_success_def count_failure_def py_index_def wait_times_def Let_def

theorem stats_total_invariant_witness:
  "stats (fst (download_videos downloader0 [(env_fresh, video_url), (env_forbidden, video_url)]))
     = \<lparr>total = 2, success = 1, failed = 1, skipped = 0\<rparr>
   \<and> stats (fst (download_video
        (fst (download_videos downloader0 [(env_fresh, video_url), (env_forbidden, video_url)]))
        env_already_downloaded video_url))
     = \<lparr>total = 3, success = 1, failed = 1, skipped = 1\<rparr>"
  using stats_total_invariant [of None _ "''downloads''" 3 "''500K''"
      "[(env_fresh, video_url), (env_forbidden, video_url)]" _ env_already_downloaded video_url,
      OF _ refl refl]
  by (simp add: fixture_defs dl_defs)

text \<open>
  C1, as stated, fails: with both files of \<open>abc123\<close> on disk, the call is counted as
  skipped and returns \<open>(True, abc123)\<close>, but it has made the pacing wait of
  \<open>wait_for_request\<close> (a sleep of 4 seconds here) and the network call \<open>extract_info\<close>
  before the check.
\<close>

theorem skip_check_counterexample:
  "path_exists env_already_downloaded ''downloads/abc123/abc123.m4a''
   \<and> path_exists env_already_downloaded ''downloads/abc123/abc123.json''
   \<and> snd (download_video downloader0 env_already_downloaded video_url) =
       ([EvWaitForRequest (Some 4), EvExtractInfo video_url], Inr (True, Some ''abc123''))"
  by (simp add: fixture_defs dl_defs)

text \<open>
  C1, amended. When the extraction gives an id whose audio file and metadata file both
  exist, \<open>download_video\<close> returns \<open>(True, id)\<close> and counts the call as skipped; its
  effects are the pacing wait of \<open>wait_for_request\<close> and the metadata-only
  \<open>extract_info\<close>, in this order, and nothing else: no \<open>wait_for_download\<close>, no
  download, no metadata file written. The check is made after the request pacing and
  the extraction, and before the download pacing and the download.
\<close>

theorem skip_check_before_download:
  "extract_info env vurl = Returns video_id \<Longrightarrow>
   path_exists env (output_dir d @ ''/'' @ video_id @ ''/'' @ video_id @ ''.m4a'') \<Longrightarrow>
   path_exists env (output_dir d @ ''/'' @ video_id @ ''/'' @ video_id @ ''.json'') \<Longrightarrow>
     download_video d env vurl =
       (d\<lparr>stats := (stats d)\<lparr>total := total (stats d) + 1, skipped := skipped (stats d) + 1\<rparr>,
          rate_limiter := (rate_limiter d)\<lparr>last_request_time := clock_request2 env\<rparr>\<rparr>,
        [EvWaitForRequest
           (snd (wait_for_request (rate_limiter d)
                   (draw_request env) (clock_request1 env) (clock_request2 env))),
         EvExtractInfo vurl],
        Inr (True, Some video_id))"
  by (simp add: download_video_def Let_def wait_for_request_def)

theorem skip_check_before_download_witness:
  "extract_info env_already_downloaded video_url = Returns ''abc123''
   \<and> path_exists env_already_downloaded
        (output_dir downloader0 @ ''/'' @ ''abc123'' @ ''/'' @ ''abc123'' @ ''.m4a'')
   \<and> path_exists env_already_downloaded
        (output_dir downloader0 @ ''/'' @ ''abc123'' @ ''/'' @ ''abc123'' @ ''.json'')
   \<and> stats (fst (download_video downloader0 env_already_downloaded video_url)) =
        \<lparr>total = 1, success = 0, failed = 0, skipped = 1\<rparr>
   \<and> fst (snd (download_video downloader0 env_already_downloaded video_url)) =
        [EvWaitForRequest (Some 4), EvExtractInfo video_url]"
proof -
  have a: "extract_info env_already_downloaded video_url = Returns ''abc123''"
    by (simp add: fixture_defs)
  have b: "path_exists env_already_downloaded
             (output_dir downloader0 @ ''/'' @ ''abc123'' @ ''/'' @ ''abc123'' @ ''.m4a'')"
    by (simp add: fixture_defs)
  have c: "path_exists env_already_downloaded
             (output_dir downloader0 @ ''/'' @ ''abc123'' @ ''/'' @ ''abc123'' @ ''.json'')"
    by (simp add: fixture_defs)
  have w: "snd (wait_for_request (rate_limiter downloader0)
                  (draw_request env_already_downloaded) (clock_request1 env_already_downloaded)
                  (clock_request2 env_already_downloaded)) = Some 4"
    by (simp add: fixture_defs wait_for_request_def request_delay_def uniform_def Let_def)
  have s: "stats downloader0 = \<lparr>total = 0, success = 0, failed = 0, skipped = 0\<rparr>"
    by (simp add: fixture_defs)
  from skip_check_before_download [OF a b c] a b c show ?thesis
    by (simp add: w s)
qed

section \<open>Properties of the batch pipelines\<close>

lemmas ts_fixture_defs = url_a_def url_b_def url_c_def ts_env_mixed_def ts_env_unwritable_def
  result_a_def result_b_def result_c_def

lemmas ts_defs = process_single_url_def decode_response_content_def save_html_response_def
  extract_video_id_def py_split_def download_audio_def Let_def

lemma str_int_404: "str_int 404 = ''404''"
  by code_simp

lemma run_a: "process_single_url ts_env_mixed url_a True True = Inr result_a"
  by (simp add: ts_fixture_defs ts_defs)

lemma run_b: "process_single_url ts_env_mixed url_b True True = Inr result_b"
  by (simp add: ts_fixture_defs ts_defs)

lemma run_c: "process_single_url ts_env_mixed url_c True True = Inr result_c"
  by (simp add: ts_fixture_defs ts_defs str_int_404)

lemma run_a_unwritable: "process_single_url ts_env_unwritable url_a True dl = Inl OSError"
  by (simp add: ts_fixture_defs ts_defs)

lemma run_b_unwritable: "process_single_url ts_env_unwritable url_b True dl = Inr result_b"
  by (simp add: ts_fixture_defs ts_defs)

lemma batch_mixed:
  "process_batch ts_env_mixed 1 [url_a, url_b, url_c] True True
     = ([1, 1], Inr [result_a, result_b, result_c])"
  by (simp add: process_batch_def py_sleep_def run_a run_b run_c)

lemma process_single_url_url:
  "process_single_url env u sh dl = Inr r \<Longrightarrow> url r = u"
  by (auto simp: process_single_url_def Let_def
        split: post_result.splits if_splits sum.splits option.splits)

lemma batch_loop_results:
  "snd (batch_loop env delay sh dl n idx us results sleeps) = Inr rs \<Longrightarrow>
     \<exists>new. rs = results @ new \<and> map url new = us"
proof (induction us arbitrary: idx results sleeps)
  case Nil
  then show ?case by simp
next
  case (Cons u us)
  show ?case
  proof (cases "process_single_url env u sh dl")
    case (Inl e)
    with Cons.prems show ?thesis by simp
  next
    case (Inr r)
    with Cons.prems obtain sl where
      "snd (batch_loop env delay sh dl n (idx + 1) us (results @ [r]) sl) = Inr rs"
      by (auto split: if_splits sum.splits)
    from Cons.IH [OF this] obtain new where "rs = (results @ [r]) @ new" "map url new = us"
      by blast
    with process_single_url_url [OF Inr] show ?thesis
      by simp
  qed
qed

lemma link_loop_results:
  "snd (link_loop env delay n idx us results sleeps) = Inr rs \<Longrightarrow>
     \<exists>new. rs = results @ new \<and> map url new = us"
proof (induction us arbitrary: idx results sleeps)
  case Nil
  then show ?case by simp
next
  case (Cons u us)
  show ?case
  proof (cases "process_single_url env u True False")
    case (Inl e)
    with Cons.prems show ?thesis by simp
  next
    case (Inr r)
    with Cons.prems
    have "\<exists>link sl. snd (link_loop env delay n (idx + 1) us
                               (results @ [r\<lparr>audio_link := link\<rparr>]) sl) = Inr rs"
    proof (cases "status r = ''success'' \<and> truthy (response r)")
      case True
      with Cons.prems Inr show ?thesis
        by (auto simp: truthy_def split: if_splits sum.splits option.splits)
    next
      case False
      have same: "r\<lparr>audio_link := audio_link r\<rparr> = r" by simp
      from False Cons.prems Inr
      have "\<exists>sl. snd (link_loop env delay n (idx + 1) us (results @ [r]) sl) = Inr rs"
        by (auto split: if_splits sum.splits)
      then show ?thesis
        using same by metis
    qed
    then obtain link sl where
      rest: "snd (link_loop env delay n (idx + 1) us
                    (results @ [r\<lparr>audio_link := link\<rparr>]) sl) = Inr rs"
      by blast
    from Cons.IH [OF rest] obtain new where
      "rs = (results @ [r\<lparr>audio_link := link\<rparr>]) @ new" "map url new = us"
      by blast
    with process_single_url_url [OF Inr] show ?thesis
      by simp
  qed
qed

lemma download_audio_task_url: "url (download_audio_task env r) = url r"
  by (simp add: download_audio_task_def split: option.splits)

text \<open>
  Whenever a list is returned, in either mode, it has one result for each input URL, in
  input order.
\<close>

lemma process_batch_urls:
  "snd (process_batch env delay us sh dl) = Inr rs \<Longrightarrow> map url rs = us"
  using batch_loop_results [of env delay sh dl "length us" 1 us "[]" "[]" rs]
  by (auto simp: process_batch_def)

lemma parallel_urls:
  "snd (process_with_parallel_download env delay workers us) = Inr rs \<Longrightarrow> map url rs = us"
proof -
  assume a: "snd (process_with_parallel_download env delay workers us) = Inr rs"
  obtain sl r0 where ll: "link_loop env delay (length us) 1 us [] [] = (sl, r0)"
    by (cases "link_loop env delay (length us) 1 us [] []")
  from a ll obtain rs0 where r0: "r0 = Inr rs0"
    and rs: "rs = map (\<lambda>r. if status r = ''success'' \<and> truthy (audio_link r)
                          then download_audio_task env r else r) rs0"
    by (cases r0) (auto simp: process_with_parallel_download_def Let_def split: if_splits)
  from link_loop_results [of env delay "length us" 1 us "[]" "[]" rs0] ll r0
  have "map url rs0 = us" by auto
  then show ?thesis
    by (simp add: rs comp_def download_audio_task_url if_distrib [of url] cong: if_cong)
qed

text \<open>
  A list is returned when nothing raises: every HTML response can be saved, the parser
  reads every markup, the delay is not negative and the pool has a worker.
\<close>

lemma process_single_url_returns:
  "html_write_ok env
     (''html_responses/'' @ extract_video_id env u @ ''_'' @ strftime env @ ''.html'') \<Longrightarrow>
   (\<And>markup. \<exists>link. extract_audio_link env markup = Inr link) \<Longrightarrow>
     \<exists>r. process_single_url env u sh dl = Inr r"
proof -
  assume w: "html_write_ok env
     (''html_responses/'' @ extract_video_id env u @ ''_'' @ strftime env @ ''.html'')"
    and x: "\<And>markup. \<exists>link. extract_audio_link env markup = Inr link"
  show ?thesis
  proof (cases "post env u")
    case (RequestException e)
    then show ?thesis by (simp add: process_single_url_def)
  next
    case (Response resp)
    from x obtain link where
      "extract_audio_link env (decode_response_content resp) = Inr link" by blast
    with Response w show ?thesis
      by (cases link) (simp_all add: process_single_url_def save_html_response_def Let_def)
  qed
qed

lemma batch_loop_returns:
  "0 \<le> delay \<Longrightarrow>
   (\<And>markup. \<exists>link. extract_audio_link env markup = Inr link) \<Longrightarrow>
   \<forall>u\<in>set us. html_write_ok env
     (''html_responses/'' @ extract_video_id env u @ ''_'' @ strftime env @ ''.html'') \<Longrightarrow>
     \<exists>rs. snd (batch_loop env delay sh dl n idx us results sleeps) = Inr rs"
proof (induction us arbitrary: idx results sleeps)
  case Nil
  then show ?case by simp
next
  case (Cons u us)
  from Cons.prems process_single_url_returns [of env u sh dl] obtain r where
    r: "process_single_url env u sh dl = Inr r" by auto
  from Cons.prems have rest: "\<forall>u\<in>set us. html_write_ok env
     (''html_responses/'' @ extract_video_id env u @ ''_'' @ strftime env @ ''.html'')"
    by simp
  from Cons.IH [OF Cons.prems(1) Cons.prems(2) rest] Cons.prems(1) show ?case
    by (simp add: r py_sleep_def)
qed

lemma link_loop_returns:
  "0 \<le> delay \<Longrightarrow>
   (\<And>markup. \<exists>link. extract_audio_link env markup = Inr link) \<Longrightarrow>
   \<forall>u\<in>set us. html_write_ok env
     (''html_responses/'' @ extract_video_id env u @ ''_'' @ strftime env @ ''.html'') \<Longrightarrow>
     \<exists>rs. snd (link_loop env delay n idx us results sleeps) = Inr rs"
proof (induction us arbitrary: idx results sleeps)
  case Nil
  then show ?case by simp
next
  case (Cons u us)
  from Cons.prems process_single_url_returns [of env u True False] obtain r where
    r: "process_single_url env u True False = Inr r" by auto
  from Cons.prems have rest: "\<forall>u\<in>set us. html_write_ok env
     (''html_responses/'' @ extract_video_id env u @ ''_'' @ strftime env @ ''.html'')"
    by simp
  note ih = Cons.IH [OF Cons.prems(1) Cons.prems(2) rest]
  show ?case
  proof (cases "status r = ''success'' \<and> truthy (response r)")
    case False
    with ih Cons.prems(1) show ?thesis
      by (auto simp: r py_sleep_def)
  next
    case True
    then obtain html where h: "response r = Some html"
      by (auto simp: truthy_def split: option.splits)
    from Cons.prems(2) obtain link where "extract_audio_link env html = Inr link"
      by blast
    with True h ih Cons.prems(1) show ?thesis
      by (auto simp: r py_sleep_def)
  qed
qed

lemma parallel_returns:
  "0 \<le> delay \<Longrightarrow>
   0 < workers \<Longrightarrow>
   (\<And>markup. \<exists>link. extract_audio_link env markup = Inr link) \<Longrightarrow>
   \<forall>u\<in>set us. html_write_ok env
     (''html_responses/'' @ extract_video_id env u @ ''_'' @ strftime env @ ''.html'') \<Longrightarrow>
     \<exists>rs. snd (process_with_parallel_download env delay workers us) = Inr rs"
proof -
  assume d: "0 \<le> delay" and mw: "0 < workers"
    and x: "\<And>markup. \<exists>link. extract_audio_link env markup = Inr link"
    and a: "\<forall>u\<in>set us. html_write_ok env
     (''html_responses/'' @ extract_video_id env u @ ''_'' @ strftime env @ ''.html'')"
  obtain sl r0 where ll: "link_loop env delay (length us) 1 us [] [] = (sl, r0)"
    by (cases "link_loop env delay (length us) 1 us [] []")
  from link_loop_returns [OF d x a, of "length us" 1 "[]" "[]"] ll
  obtain rs0 where "r0 = Inr rs0"
    by auto
  with ll mw show ?thesis
    by (simp add: process_with_parallel_download_def Let_def)
qed

text \<open>
  C6. The claim has a list of N results for every list of N URLs. The code returns no
  list at all when the HTML response of an item cannot be saved: for the two URLs
  below, the exception of the first item ends the run, in the sequential mode and in
  the two-phase mode, and there is no result for either URL.
\<close>

theorem no_result_list_when_html_unwritable:
  "process_batch ts_env_unwritable 1 [url_a, url_c] True True = ([], Inl OSError)
   \<and> process_with_parallel_download ts_env_unwritable 1 3 [url_a, url_c] = ([], Inl OSError)"
  by (simp add: process_batch_def process_with_parallel_download_def run_a_unwritable)

text \<open>
  C2, as stated, fails: the endpoint answers \<open>url_a\<close> with HTTP 200 and a page in which
  the extractor finds no link; the result has status \<open>success\<close> and no error detail.
\<close>

theorem no_link_counterexample:
  "post ts_env_mixed url_a =
     Response \<lparr>r_status_code = 200, r_content_encoding = [], r_text = ''<p>queued</p>'',
               r_zstd = None\<rparr>
   \<and> extract_audio_link ts_env_mixed ''<p>queued</p>'' = Inr None
   \<and> process_single_url ts_env_mixed url_a True True = Inr result_a
   \<and> status result_a = ''success''
   \<and> status result_a \<noteq> ''failed''
   \<and> error result_a = None"
  by (simp add: run_a) (simp add: ts_fixture_defs)

text \<open>
  C2, amended. When the endpoint answers HTTP 200, the extractor finds no link in the
  decoded content and the HTML response is saved without error, the result has status
  \<open>success\<close>, no error detail and no audio file, in the sequential mode and in the
  two-phase mode alike.
\<close>

theorem no_link_is_success:
  "post env u = Response resp \<Longrightarrow>
   r_status_code resp = 200 \<Longrightarrow>
   extract_audio_link env (decode_response_content resp) = Inr None \<Longrightarrow>
   html_write_ok env
     (''html_responses/'' @ extract_video_id env u @ ''_'' @ strftime env @ ''.html'') \<Longrightarrow>
     (\<exists>html. process_single_url env u save_html download =
        Inr \<lparr>url = u, status = ''success'', error = None,
             response = Some (decode_response_content resp), status_code = Some 200,
             html_file = html, audio_file = None, audio_link = None\<rparr>)
     \<and> (\<exists>html. process_with_parallel_download env delay workers [u] =
        ([], Inr [\<lparr>url = u, status = ''success'', error = None,
                   response = Some (decode_response_content resp), status_code = Some 200,
                   html_file = html, audio_file = None, audio_link = None\<rparr>]))"
  by (simp add: process_single_url_def process_with_parallel_download_def
        save_html_response_def download_audio_task_def truthy_def Let_def)

theorem no_link_is_success_witness:
  "post ts_env_mixed url_a =
     Response \<lparr>r_status_code = 200, r_content_encoding = [], r_text = ''<p>queued</p>'',
               r_zstd = None\<rparr>
   \<and> (\<exists>html. process_single_url ts_env_mixed url_a False True =
        Inr \<lparr>url = url_a, status = ''success'', error = None,
             response = Some ''<p>queued</p>'', status_code = Some 200,
             html_file = html, audio_file = None, audio_link = None\<rparr>)
   \<and> (\<exists>html. process_with_parallel_download ts_env_mixed 1 3 [url_a] =
        ([], Inr [\<lparr>url = url_a, status = ''success'', error = None,
                   response = Some ''<p>queued</p>'', status_code = Some 200,
                   html_file = html, audio_file = None, audio_link = None\<rparr>]))"
proof -
  let ?resp = "\<lparr>r_status_code = 200, r_content_encoding = [], r_text = ''<p>queued</p>'',
                r_zstd = None\<rparr>"
  have a: "post ts_env_mixed url_a = Response ?resp"
    by (simp add: ts_fixture_defs)
  have b: "r_status_code ?resp = 200"
    by simp
  have c: "extract_audio_link ts_env_mixed (decode_response_content ?resp) = Inr None"
    by (simp add: ts_env_mixed_def)
  have d: "html_write_ok ts_env_mixed
             (''html_responses/'' @ extract_video_id ts_env_mixed url_a @ ''_''
                @ strftime ts_env_mixed @ ''.html'')"
    by (simp add: ts_env_mixed_def)
  have e: "decode_response_content ?resp = ''<p>queued</p>''"
    by (simp add: decode_response_content_def)
  from no_link_is_success [OF a b c d, of False True 1 3] a show ?thesis
    by (simp add: e)
qed

text \<open>
  C7. A request that fails, an answer that is not HTTP 200 and a failed audio download
  are captured in the result of the item. A failed write of the HTML response is not:
  its exception leaves \<open>process_single_url\<close> and the loop. Here the second of three
  URLs cannot be saved; the batch ends with the exception, in both modes, and the result
  of the first URL is lost with it.
\<close>

theorem html_write_error_aborts_batch:
  "process_single_url ts_env_unwritable url_b True True = Inr result_b
   \<and> process_batch ts_env_unwritable 1 [url_b, url_a, url_c] True True = ([1], Inl OSError)
   \<and> process_with_parallel_download ts_env_unwritable 1 3 [url_b, url_a, url_c]
       = ([1], Inl OSError)"
proof -
  have t: "\<not> truthy (response result_b)" "status result_b = ''error''"
    by (simp_all add: result_b_def truthy_def)
  show ?thesis
    by (simp add: process_batch_def process_with_parallel_download_def py_sleep_def
          run_a_unwritable run_b_unwritable t)
qed

lemma failures_without_save_are_captured:
  "(\<And>markup. \<exists>link. extract_audio_link env markup = Inr link) \<Longrightarrow>
     \<exists>r. process_single_url env u False dl = Inr r \<and> url r = u"
proof -
  assume x: "\<And>markup. \<exists>link. extract_audio_link env markup = Inr link"
  show ?thesis
  proof (cases "post env u")
    case (RequestException e)
    then show ?thesis by (simp add: process_single_url_def)
  next
    case (Response resp)
    from x obtain link where
      "extract_audio_link env (decode_response_content resp) = Inr link" by blast
    with Response show ?thesis
      by (cases link) (simp_all add: process_single_url_def Let_def)
  qed
qed

lemma sum_list_ones: "sum_list (map (\<lambda>r. 1) xs) = int (length xs)"
  by (induction xs) simp_all

text \<open>
  C8, as stated, fails for the summary of a batch: for the three results above it
  prints the total, the success count and the failed count, and neither a skipped count
  nor a percentage.
\<close>

theorem batch_summary_counterexample:
  "batch_print_summary [result_a, result_b, result_c] =
     [Rule, Title, Rule, Total 3, Successful 1, Failed 2, Rule]
   \<and> \<not> list_ex is_Skipped (batch_print_summary [result_a, result_b, result_c])
   \<and> \<not> list_ex is_SuccessRate (batch_print_summary [result_a, result_b, result_c])"
  by (simp add: batch_print_summary_def result_a_def result_b_def result_c_def)

text \<open>
  C8, amended. The summary of a batch reports the total (the number of results), the
  success count (the results with status \<open>success\<close>) and the failed count (all the
  other results), and nothing else. The summary of the downloader reports its four
  counters, total, success, skipped and failed, and a success rate \<open>success / total\<close>
  when the total is positive.
\<close>

theorem summary_fields:
  "batch_print_summary results =
     [Rule, Title, Rule,
      Total (int (length results)),
      Successful (int (length (filter (\<lambda>r. status r = ''success'') results))),
      Failed (int (length (filter (\<lambda>r. status r \<noteq> ''success'') results))),
      Rule]
   \<and> print_summary d =
     [Rule, Title, Rule,
      Total (total (stats d)), Successful (success (stats d)),
      Skipped (skipped (stats d)), Failed (failed (stats d)), Rule]
     @ (if 0 < total (stats d) then [SuccessRate (success (stats d)) (total (stats d))] else [])
     @ [Rule]"
proof -
  have "length results =
          length (filter (\<lambda>r. status r = ''success'') results)
          + length (filter (\<lambda>r. status r \<noteq> ''success'') results)"
    by (simp add: sum_length_filter_compl)
  then have "int (length results) - int (length (filter (\<lambda>r. status r = ''success'') results))
          = int (length (filter (\<lambda>r. status r \<noteq> ''success'') results))"
    by linarith
  then show ?thesis
    by (simp add: batch_print_summary_def print_summary_def sum_list_ones Let_def)
qed

theorem summary_fields_witness:
  "batch_print_summary [result_b, result_a, result_a] =
     [Rule, Title, Rule, Total 3, Successful 2, Failed 1, Rule]
   \<and> print_summary (downloader0\<lparr>stats := \<lparr>total = 3, success = 1, failed = 1, skipped = 1\<rparr>\<rparr>) =
     [Rule, Title, Rule, Total 3, Successful 1, Skipped 1, Failed 1, Rule, SuccessRate 1 3, Rule]"
  using summary_fields [of "[result_b, result_a, result_a]"
      "downloader0\<lparr>stats := \<lparr>total = 3, success = 1, failed = 1, skipped = 1\<rparr>\<rparr>"]
  by (simp add: result_a_def result_b_def)

end
